theory Spec2Isabelle
  imports Main "HOL-Library.AList"
begin

section \<open>JavaScript values\<close>

text \<open>
  The configuration handled by \<^verbatim>\<open>src/index.js\<close> is a plain JavaScript object. Its
  values are modelled by the datatype below; an object is an association list from
  property names to values, read with \<open>map_of\<close> (a property occurs once in an object).
  Functions are opaque: the two that the defaults define themselves, and those the
  caller supplies, which are told apart by a number.
\<close>

datatype func = DefaultGenSid | DefaultMethodOverride | Caller nat

datatype jsval =
    Undefined
  | Null
  | Bool bool
  | Num int
  | Str string
  | Arr "jsval list"
  | Obj "(string \<times> jsval) list"
  | Fun func

type_synonym obj = "(string \<times> jsval) list"

datatype error =
    TypeError string
  | Thrown nat
  | EADDRINUSE
  | ERR_SERVER_ALREADY_LISTEN
  | ERR_SOCKET_BAD_PORT
  | ERR_SERVER_NOT_RUNNING

text \<open>Truthiness, as the conditions \<^verbatim>\<open>if (this.config.x)\<close> test it.\<close>

fun truthy :: "jsval \<Rightarrow> bool" where
  "truthy Undefined = False"
| "truthy Null = False"
| "truthy (Bool b) = b"
| "truthy (Num n) = (n \<noteq> 0)"
| "truthy (Str s) = (s \<noteq> [])"
| "truthy (Arr xs) = True"
| "truthy (Obj ps) = True"
| "truthy (Fun f) = True"

text \<open>\<^verbatim>\<open>o.k\<close> on an object that is known to exist: a missing property reads undefined.\<close>

definition obj_get :: "obj \<Rightarrow> string \<Rightarrow> jsval" where
  "obj_get ps k = (case map_of ps k of None \<Rightarrow> Undefined | Some v \<Rightarrow> v)"

text \<open>A word between single quotes, as in the source text \<^verbatim>\<open>"'self'"\<close>.\<close>

definition quoted :: "string \<Rightarrow> string" where
  "quoted s = CHR 0x27 # s @ [CHR 0x27]"

text \<open>
  \<^verbatim>\<open>v.k\<close> on an arbitrary value: reading a property of undefined or null throws a
  TypeError; the primitive values, arrays and opaque functions carry none of the
  property names the constructor reads.
\<close>

fun member :: "jsval \<Rightarrow> string \<Rightarrow> jsval" where
  "member (Obj ps) k = obj_get ps k"
| "member v k = Undefined"

fun read_prop :: "jsval \<Rightarrow> string \<Rightarrow> error + jsval" where
  "read_prop Undefined k = Inl (TypeError (''Cannot read property '' @ quoted k @ '' of undefined''))"
| "read_prop Null k = Inl (TypeError (''Cannot read property '' @ quoted k @ '' of null''))"
| "read_prop v k = Inr (member v k)"

text \<open>\<^verbatim>\<open>_.isFunction\<close>.\<close>

fun isFunction :: "jsval \<Rightarrow> bool" where
  "isFunction (Fun f) = True"
| "isFunction v = False"

text \<open>\<^verbatim>\<open>{...a, ...b}\<close>: the properties of \<open>b\<close> replace those of \<open>a\<close>.\<close>

definition spread :: "obj \<Rightarrow> obj \<Rightarrow> obj" where
  "spread a b = AList.merge a b"

section \<open>The environment of the process\<close>

text \<open>
  What the module reads from outside the repository: the process environment,
  the object returned by \<^verbatim>\<open>sharedConfig('WEB')\<close>, \<^verbatim>\<open>path.resolve\<close>, the glob
  matcher \<^verbatim>\<open>multimatch\<close> (the list of the paths that match the patterns), the
  \<^verbatim>\<open>boolean\<close> coercion, and the functions supplied by the caller. A hook, called
  with the application, throws or registers middleware of its own with
  \<^verbatim>\<open>app.use\<close>; a function called for the middleware it builds throws or returns
  a value.
\<close>

record host =
  env :: "string \<Rightarrow> string option"
  sharedConfig :: obj
  path_resolve :: "string \<Rightarrow> string"
  multimatch :: "string \<Rightarrow> jsval list \<Rightarrow> string list"
  boolean :: "jsval \<Rightarrow> bool"
  run_hook :: "func \<Rightarrow> error + func list"
  call_function :: "func \<Rightarrow> error + jsval"

text \<open>
  \<^verbatim>\<open>isSANB\<close> (is-string-and-not-blank): the value is a string and is not blank,
  that is, one of its characters is not white space. The package counts as white
  space the codes 9 to 13, 32, 133 (next line) and 160 (no-break space), and
  further codes from 5760 on, which a character of eight bits does not reach. An
  environment variable is a string or absent.
\<close>

definition whitespace :: "char \<Rightarrow> bool" where
  "whitespace c =
     (c \<in> set [CHR 0x09, CHR 0x0A, CHR 0x0B, CHR 0x0C, CHR 0x0D, CHR 0x20, CHR 0x85, CHR 0xA0])"

definition isSANB :: "string option \<Rightarrow> bool" where
  "isSANB v = (case v of None \<Rightarrow> False | Some s \<Rightarrow> list_ex (\<lambda>c. \<not> whitespace c) s)"

text \<open>\<^verbatim>\<open>s.split(',')\<close>: the pieces between the separators, one more than separators.\<close>

fun split_on :: "char \<Rightarrow> string \<Rightarrow> string list" where
  "split_on sep [] = [[]]"
| "split_on sep (c # cs) =
     (if c = sep then [] # split_on sep cs
      else (case split_on sep cs of [] \<Rightarrow> [[c]] | p # ps \<Rightarrow> (c # p) # ps))"

section \<open>The default configuration\<close>

text \<open>Lines 52 to 64: computed once, when the module is loaded.\<close>

definition defaultSrc :: "host \<Rightarrow> jsval" where
  "defaultSrc h =
     (if isSANB (env h ''WEB_HOST'')
      then (case env h ''WEB_HOST'' of
              None \<Rightarrow> Null
            | Some web_host \<Rightarrow>
                Arr [Str (quoted ''self''),
                     Str ''data:'',
                     Str (''*.'' @ web_host),
                     Str (''*.'' @ web_host @ '':*''),
                     Str web_host,
                     Str (web_host @ '':*'')])
      else Null)"

definition reportUri :: "host \<Rightarrow> jsval" where
  "reportUri h =
     (if isSANB (env h ''WEB_URL'')
      then (case env h ''WEB_URL'' of
              None \<Rightarrow> Null
            | Some web_url \<Rightarrow> Str (web_url @ ''/report''))
      else Null)"

text \<open>\<^verbatim>\<open>[...defaultSrc, x, y]\<close>, where \<^verbatim>\<open>defaultSrc\<close> is an array.\<close>

fun arr_append :: "jsval \<Rightarrow> jsval list \<Rightarrow> jsval" where
  "arr_append (Arr xs) ys = Arr (xs @ ys)"
| "arr_append v ys = Arr ys"

definition contentSecurityPolicy :: "host \<Rightarrow> jsval" where
  "contentSecurityPolicy h =
     (if truthy (defaultSrc h)
      then Obj [(''directives'', Obj [
             (''defaultSrc'', defaultSrc h),
             (''connectSrc'', arr_append (defaultSrc h) [Str ''https://www.google-analytics.com'']),
             (''fontSrc'', defaultSrc h),
             (''imgSrc'', defaultSrc h),
             (''styleSrc'', arr_append (defaultSrc h) [Str (quoted ''unsafe-inline'')]),
             (''scriptSrc'', arr_append (defaultSrc h)
                [Str ''https://www.googletagmanager.com'',
                 Str ''https://unpkg.com'',
                 Str (quoted ''unsafe-inline'')]),
             (''reportUri'', (if truthy (reportUri h) then reportUri h else Null))])]
      else Null)"

definition default_helmet :: "host \<Rightarrow> jsval" where
  "default_helmet h = Obj [
     (''contentSecurityPolicy'', contentSecurityPolicy h),
     (''expectCt'', Obj [
        (''enforce'', Bool True),
        (''maxAge'', Num 2592000),
        (''reportUri'', reportUri h)]),
     (''hsts'', Obj [
        (''maxAge'', Num 31557600),
        (''includeSubDomains'', Bool True),
        (''preload'', Bool True)]),
     (''referrerPolicy'', Obj [(''policy'', Str ''same-origin'')]),
     (''xssFilter'', Obj [(''reportUri'', reportUri h)])]"

text \<open>
  Lines 71 to 169, the object literal between the two spreads.
  \<^verbatim>\<open>ms('30d') / 1000\<close> is 2592000 and \<^verbatim>\<open>ms('1y') / 1000\<close> is 31557600; of zlib's
  constants, \<^verbatim>\<open>BROTLI_PARAM_MODE\<close> is 0, \<^verbatim>\<open>BROTLI_MODE_TEXT\<close> is 1 and
  \<^verbatim>\<open>BROTLI_PARAM_QUALITY\<close> is 1.
\<close>

definition defaults :: "host \<Rightarrow> obj" where
  "defaults h = [
     (''meta'', Obj []),
     (''views'', Obj [
        (''root'', Str (path_resolve h ''./app/views'')),
        (''locals'', Obj []),
        (''options'', Obj [(''extension'', Str ''pug'')])]),
     (''csrf'', Obj []),
     (''csrfIgnoredGlobs'', Arr [Str ''/report'']),
     (''rateLimitIgnoredGlobs'', Arr [Str ''/report'']),
     (''sessionKeys'',
        (case env h ''SESSION_KEYS'' of
           None \<Rightarrow> Arr [Str ''lad'']
         | Some s \<Rightarrow> if s \<noteq> [] then Arr (map Str (split_on CHR '','' s)) else Arr [Str ''lad''])),
     (''cookiesKey'',
        (case env h ''COOKIES_KEY'' of
           None \<Rightarrow> Str ''lad.sid''
         | Some s \<Rightarrow> if s \<noteq> [] then Str s else Str ''lad.sid'')),
     (''favicon'', Obj [
        (''path'', Str (path_resolve h ''./assets/img/favicon.ico'')),
        (''options'', Obj [])]),
     (''buildDir'', Str (path_resolve h ''./build'')),
     (''serveStatic'', Obj []),
     (''redirectLoop'', Obj []),
     (''koaCash'', Bool False),
     (''cacheResponses'', Bool False),
     (''genSid'', Fun DefaultGenSid),
     (''methodOverride'', Arr [Fun DefaultMethodOverride]),
     (''helmet'', default_helmet h),
     (''compress'', Obj [
        (''br'', Obj [
           (''params'', Obj [(''0'', Num 1), (''1'', Num 4)])])])]"

text \<open>
  Lines 69 to 172: \<^verbatim>\<open>this.config = {...sharedConfig('WEB'), <defaults>, ...config}\<close>.
\<close>

definition this_config :: "host \<Rightarrow> obj \<Rightarrow> obj" where
  "this_config h config = spread (spread (sharedConfig h) (defaults h)) config"

section \<open>The middleware pipeline\<close>

text \<open>
  A middleware of the application is named by the package that builds it, with the
  arguments the constructor passes to that package. \<open>Supplied f\<close> is middleware that
  comes from the caller: registered by a hook, returned by one of the caller's
  functions, or a function found in the configuration. \<open>RateLimitGate\<close> and
  \<open>CsrfGate\<close> are the two closures the constructor writes itself (lines 243 to 259
  and 387 to 412); what they do with a request is defined further down.
\<close>

datatype middleware =
    RequestReceived
  | TimeoutMw jsval
  | ResponseTime
  | RequestId
  | CabinMw
  | Supplied func
  | BasicAuth jsval
  | RateLimitGate
  | RemoveTrailingSlashes
  | Helmet jsval
  | I18nMiddleware jsval
  | I18nRedirect jsval
  | ConditionalGet
  | Etag
  | Cors jsval
  | Compress jsval
  | KoaCash jsval
  | CacheResponsesMw jsval
  | Favicon jsval jsval
  | ServeStatic jsval jsval
  | Views jsval jsval jsval
  | IsAjax
  | MetaMw jsval
  | StateHelperMw jsval
  | SessionStore jsval jsval jsval jsval
  | RedirectLoopMw jsval
  | Flash
  | BodyParser
  | Json
  | MethodOverride "jsval list"
  | CsrfGate
  | StoreIPAddressMw jsval
  | Koa404Handler

record app =
  middleware :: "middleware list"
  proxy :: bool
  cache :: bool
  keys :: jsval

datatype transport = Http | Http2Secure jsval

record server =
  transport :: transport
  handler :: "middleware list"
  listening :: "nat option"

record web =
  config :: obj
  app :: app
  server :: server
  cacheResponses :: jsval

text \<open>Sequencing of steps that may throw.\<close>

definition and_then :: "error + 'a \<Rightarrow> ('a \<Rightarrow> error + 'b) \<Rightarrow> error + 'b" where
  "and_then m f = (case m of Inl e \<Rightarrow> Inl e | Inr x \<Rightarrow> f x)"

text \<open>\<^verbatim>\<open>if (c) app.use(m)\<close>.\<close>

definition attach_if :: "bool \<Rightarrow> middleware list \<Rightarrow> middleware list" where
  "attach_if c ms = (if c then ms else [])"

text \<open>
  \<^verbatim>\<open>app.use(v)\<close> for a value that comes from the caller: the application refuses
  anything that is not a function.
\<close>

fun app_use :: "jsval \<Rightarrow> error + middleware list" where
  "app_use (Fun f) = Inr [Supplied f]"
| "app_use v = Inl (TypeError ''middleware must be a function!'')"

text \<open>\<^verbatim>\<open>app.use(v.k())\<close>: the property is called, and its result is registered.\<close>

definition use_result_of :: "(func \<Rightarrow> error + jsval) \<Rightarrow> jsval \<Rightarrow> string \<Rightarrow> error + middleware list" where
  "use_result_of run v k =
     (case member v k of
        Fun f \<Rightarrow> and_then (run f) app_use
      | _ \<Rightarrow> Inl (TypeError (k @ '' is not a function'')))"

text \<open>Line 210: \<^verbatim>\<open>boolean(this.config.views.locals.cache)\<close>.\<close>

definition views_locals_cache :: "host \<Rightarrow> obj \<Rightarrow> error + bool" where
  "views_locals_cache h cfg =
     and_then (read_prop (obj_get cfg ''views'') ''locals'') (\<lambda>locals.
     and_then (read_prop locals ''cache'') (\<lambda>c. Inr (boolean h c)))"

text \<open>Lines 214 to 229.\<close>

definition instrumentation :: "obj \<Rightarrow> middleware list" where
  "instrumentation cfg =
     [RequestReceived]
     @ attach_if (truthy (obj_get cfg ''timeout'')) [TimeoutMw (obj_get cfg ''timeout'')]
     @ [ResponseTime, RequestId, CabinMw]"

text \<open>
  Lines 232 to 234 and 434 to 436: a hook is called when it is a function, with
  the application; what it registers is appended to the pipeline.
\<close>

definition call_hook :: "host \<Rightarrow> jsval \<Rightarrow> error + middleware list" where
  "call_hook h v =
     (case v of
        Fun f \<Rightarrow> and_then (run_hook h f) (\<lambda>fs. Inr (map Supplied fs))
      | _ \<Rightarrow> Inr [])"

text \<open>Lines 237 to 269.\<close>

definition gatekeeping :: "obj \<Rightarrow> middleware list" where
  "gatekeeping cfg =
     attach_if (truthy (obj_get cfg ''auth'')) [BasicAuth (obj_get cfg ''auth'')]
     @ attach_if (truthy (obj_get cfg ''rateLimit'')) [RateLimitGate]
     @ [RemoveTrailingSlashes]
     @ attach_if (truthy (obj_get cfg ''helmet'')) [Helmet (obj_get cfg ''helmet'')]"

text \<open>
  Lines 272 to 283: an instance passed by the caller (it has a truthy \<^verbatim>\<open>config\<close>)
  is used as it is, otherwise one is built from the options.
\<close>

definition i18n_stage :: "obj \<Rightarrow> error + middleware list" where
  "i18n_stage cfg =
     (let i18n = obj_get cfg ''i18n'' in
      if truthy i18n then
        (if truthy (member i18n ''config'')
         then and_then (app_use (member i18n ''middleware'')) (\<lambda>m.
              and_then (app_use (member i18n ''redirect'')) (\<lambda>r. Inr (m @ r)))
         else Inr [I18nMiddleware i18n, I18nRedirect i18n])
      else Inr [])"

text \<open>Lines 286 to 345.\<close>

definition rendering :: "obj \<Rightarrow> middleware list" where
  "rendering cfg =
     [ConditionalGet, Etag]
     @ attach_if (truthy (obj_get cfg ''cors'')) [Cors (obj_get cfg ''cors'')]
     @ attach_if (truthy (obj_get cfg ''compress'')) [Compress (obj_get cfg ''compress'')]
     @ attach_if (truthy (obj_get cfg ''koaCash'')) [KoaCash (obj_get cfg ''koaCash'')]
     @ attach_if (truthy (obj_get cfg ''cacheResponses''))
         [CacheResponsesMw (obj_get cfg ''cacheResponses'')]
     @ attach_if (truthy (obj_get cfg ''favicon''))
         [Favicon (member (obj_get cfg ''favicon'') ''path'')
                  (member (obj_get cfg ''favicon'') ''options'')]
     @ attach_if (truthy (obj_get cfg ''buildDir'') \<and> truthy (obj_get cfg ''serveStatic''))
         [ServeStatic (obj_get cfg ''buildDir'') (obj_get cfg ''serveStatic'')]
     @ [Views (member (obj_get cfg ''views'') ''root'')
              (member (obj_get cfg ''views'') ''options'')
              (member (obj_get cfg ''views'') ''locals''),
        IsAjax]
     @ attach_if (truthy (obj_get cfg ''meta'')) [MetaMw (obj_get cfg ''meta'')]
     @ [StateHelperMw (member (obj_get cfg ''views'') ''locals'')]"

text \<open>Lines 347 to 372.\<close>

definition sessions :: "obj \<Rightarrow> middleware list" where
  "sessions cfg =
     [SessionStore (obj_get cfg ''cookiesKey'') (obj_get cfg ''cookies'')
                   (obj_get cfg ''genSid'') (obj_get cfg ''session'')]
     @ attach_if (truthy (obj_get cfg ''redirectLoop''))
         [RedirectLoopMw (obj_get cfg ''redirectLoop'')]
     @ [Flash, BodyParser, Json]"

text \<open>
  Lines 376 to 378: \<^verbatim>\<open>methodOverride(...this.config.methodOverride)\<close>. The spread
  needs an iterable: an array, or a string, whose elements are its characters.
\<close>

definition method_override_stage :: "obj \<Rightarrow> error + middleware list" where
  "method_override_stage cfg =
     (let mo = obj_get cfg ''methodOverride'' in
      if truthy mo then
        (case mo of
           Arr xs \<Rightarrow> Inr [MethodOverride xs]
         | Str s \<Rightarrow> Inr [MethodOverride (map (\<lambda>c. Str [c]) s)]
         | _ \<Rightarrow> Inl (TypeError ''this.config.methodOverride is not iterable''))
      else Inr [])"

text \<open>Lines 382 to 413.\<close>

definition csrf_stage :: "host \<Rightarrow> obj \<Rightarrow> middleware list" where
  "csrf_stage h cfg =
     attach_if (truthy (obj_get cfg ''csrf'') \<and> env h ''NODE_ENV'' \<noteq> Some ''test'') [CsrfGate]"

text \<open>Lines 416 to 419.\<close>

definition passport_stage :: "host \<Rightarrow> obj \<Rightarrow> error + middleware list" where
  "passport_stage h cfg =
     (let passport = obj_get cfg ''passport'' in
      if truthy passport then
        and_then (use_result_of (call_function h) passport ''initialize'') (\<lambda>i.
        and_then (use_result_of (call_function h) passport ''session'') (\<lambda>s. Inr (i @ s)))
      else Inr [])"

text \<open>Lines 422 to 431.\<close>

definition fallbacks :: "obj \<Rightarrow> middleware list" where
  "fallbacks cfg =
     attach_if (truthy (obj_get cfg ''storeIPAddress''))
       [StoreIPAddressMw (obj_get cfg ''storeIPAddress'')]
     @ [Koa404Handler]"

text \<open>Lines 439 to 445.\<close>

definition routes_stage :: "host \<Rightarrow> obj \<Rightarrow> error + middleware list" where
  "routes_stage h cfg =
     (let routes = obj_get cfg ''routes'' in
      if truthy routes then
        (if isFunction (member routes ''routes'')
         then use_result_of (call_function h) routes ''routes''
         else app_use routes)
      else Inr [])"

text \<open>Lines 448 to 451.\<close>

definition create_server :: "obj \<Rightarrow> middleware list \<Rightarrow> server" where
  "create_server cfg callback =
     (if obj_get cfg ''protocol'' = Str ''https''
      then \<lparr>transport = Http2Secure (obj_get cfg ''ssl''), handler = callback, listening = None\<rparr>
      else \<lparr>transport = Http, handler = callback, listening = None\<rparr>)"

text \<open>
  The constructor, lines 68 to 461. The logger, the Redis client and the packages
  behind each middleware are built by code outside the repository and are not
  represented; the steps of the constructor that can throw by themselves are, in
  the order in which they run.
\<close>

definition Web :: "host \<Rightarrow> obj \<Rightarrow> error + web" where
  "Web h caller_config =
     (let cfg = this_config h caller_config in
      and_then (views_locals_cache h cfg) (\<lambda>app_cache.
      and_then (call_hook h (obj_get cfg ''hookBeforeSetup'')) (\<lambda>before_setup.
      and_then (i18n_stage cfg) (\<lambda>i18n.
      and_then (method_override_stage cfg) (\<lambda>method_override.
      and_then (passport_stage h cfg) (\<lambda>passport.
      and_then (call_hook h (obj_get cfg ''hookBeforeRoutes'')) (\<lambda>before_routes.
      and_then (routes_stage h cfg) (\<lambda>routes.
        let pipeline =
              instrumentation cfg @ before_setup @ gatekeeping cfg @ i18n
              @ rendering cfg @ sessions cfg @ method_override @ csrf_stage h cfg
              @ passport @ fallbacks cfg @ before_routes @ routes
        in Inr \<lparr>config = cfg,
                app = \<lparr>middleware = pipeline,
                       proxy = boolean h (case env h ''TRUST_PROXY'' of
                                            None \<Rightarrow> Undefined | Some s \<Rightarrow> Str s),
                       cache = app_cache,
                       keys = obj_get cfg ''sessionKeys''\<rparr>,
                server = create_server cfg pipeline,
                cacheResponses =
                  (if truthy (obj_get cfg ''cacheResponses'')
                   then obj_get cfg ''cacheResponses'' else Undefined)\<rparr>))))))))"

section \<open>Requests\<close>

text \<open>
  What one of the constructor's own two middleware does with a request: it calls
  \<^verbatim>\<open>next\<close> itself, or hands the request to the package it guards.
\<close>

datatype gate = CallNext | RunRatelimit jsval | RunCsrf jsval

text \<open>
  \<open>RunRatelimit\<close> is the call of \<^verbatim>\<open>ratelimit\<close> with the options of the
  configuration (lines 255 to 258); \<open>RunCsrf\<close> is the validation by the package with
  the options of the configuration, inside the \<^verbatim>\<open>try\<close> that rethrows its error
  (lines 399 to 411).
\<close>

text \<open>Lines 243 to 259.\<close>

definition rate_limit_gate :: "host \<Rightarrow> obj \<Rightarrow> string \<Rightarrow> gate" where
  "rate_limit_gate h cfg path =
     (case obj_get cfg ''rateLimitIgnoredGlobs'' of
        Arr globs \<Rightarrow>
          if length globs > 0 then
            (let match = multimatch h path globs
             in if length match > 0 then CallNext
                else RunRatelimit (obj_get cfg ''rateLimit''))
          else RunRatelimit (obj_get cfg ''rateLimit'')
      | _ \<Rightarrow> RunRatelimit (obj_get cfg ''rateLimit''))"

text \<open>Lines 387 to 412.\<close>

definition csrf_gate :: "host \<Rightarrow> obj \<Rightarrow> string \<Rightarrow> gate" where
  "csrf_gate h cfg path =
     (case obj_get cfg ''csrfIgnoredGlobs'' of
        Arr globs \<Rightarrow>
          if length globs > 0 then
            (let match = multimatch h path globs
             in if length match > 0 then CallNext
                else RunCsrf (obj_get cfg ''csrf''))
          else RunCsrf (obj_get cfg ''csrf'')
      | _ \<Rightarrow> RunCsrf (obj_get cfg ''csrf''))"

section \<open>The error event\<close>

text \<open>
  Lines 183 to 190. Of the error only its \<^verbatim>\<open>status\<close> is read, a number or absent;
  of the context only its \<^verbatim>\<open>logger\<close>, attached or not.
\<close>

datatype level = Warn | Error

datatype logger = CtxLogger nat | Cabin

record 'e log_call =
  target :: logger
  at_level :: level
  logged :: 'e

definition error_level :: "int option \<Rightarrow> level" where
  "error_level status =
     (if (case status of None \<Rightarrow> False | Some s \<Rightarrow> s \<noteq> 0 \<and> s < 500) then Warn else Error)"

definition on_error :: "('e \<Rightarrow> int option) \<Rightarrow> 'e \<Rightarrow> nat option \<Rightarrow> 'e log_call" where
  "on_error status_of err ctx_logger =
     (let level = error_level (status_of err) in
      case ctx_logger of
        Some l \<Rightarrow> \<lparr>target = CtxLogger l, at_level = level, logged = err\<rparr>
      | None \<Rightarrow> \<lparr>target = Cabin, at_level = level, logged = err\<rparr>)"

section \<open>Listening and closing\<close>

text \<open>
  The ports bound on the machine are a list of port numbers. A method of the server,
  promisified and bound to it, is a function value: it acts on the server and on the
  ports when it is called, and only then. Ports are explicit numbers from 1 to 65535;
  a port left to the operating system to choose is not represented.
\<close>

type_synonym bound_method = "server \<times> nat list \<Rightarrow> (error + unit) \<times> server \<times> nat list"

definition server_listen :: "jsval \<Rightarrow> jsval \<Rightarrow> bound_method" where
  "server_listen port hostname = (\<lambda>(srv, ports).
     case port of
       Num n \<Rightarrow>
         if 0 < n \<and> n < 65536 then
           (if listening srv \<noteq> None then (Inl ERR_SERVER_ALREADY_LISTEN, srv, ports)
            else if nat n \<in> set ports then (Inl EADDRINUSE, srv, ports)
            else (Inr (), srv\<lparr>listening := Some (nat n)\<rparr>, nat n # ports))
         else (Inl ERR_SOCKET_BAD_PORT, srv, ports)
     | _ \<Rightarrow> (Inl ERR_SOCKET_BAD_PORT, srv, ports))"

definition server_close :: bound_method where
  "server_close = (\<lambda>(srv, ports).
     case listening srv of
       None \<Rightarrow> (Inl ERR_SERVER_NOT_RUNNING, srv, ports)
     | Some p \<Rightarrow> (Inr (), srv\<lparr>listening := None\<rparr>, removeAll p ports))"

text \<open>
  What an \<^verbatim>\<open>await\<close> is given: the promise returned by a call of the function, or
  the function itself. Awaiting a value that is not a promise yields it at once.
\<close>

datatype awaited = Call bound_method | Uncalled bound_method

fun await :: "awaited \<Rightarrow> server \<times> nat list \<Rightarrow> (error + unit) \<times> server \<times> nat list" where
  "await (Call f) s = f s"
| "await (Uncalled f) s = (Inr (), s)"

text \<open>
  Lines 463 to 473:
  \<^verbatim>\<open>await util.promisify(this.server.listen).bind(this.server)(port, host, ...args)\<close>,
  with the configured port and host for the arguments left undefined. Further
  arguments are passed on to the server and play no part here.
\<close>

definition listen :: "web \<Rightarrow> jsval \<Rightarrow> jsval \<Rightarrow> nat list \<Rightarrow> (error + unit) \<times> web \<times> nat list" where
  "listen w port hostname ports =
     (let port = (if port = Undefined then obj_get (config w) ''port'' else port);
          hostname = (if hostname = Undefined then obj_get (config w) ''serverHost'' else hostname)
      in case await (Call (server_listen port hostname)) (server w, ports) of
           (r, srv, ports') \<Rightarrow> (r, w\<lparr>server := srv\<rparr>, ports'))"

text \<open>
  Lines 475 to 477:
  \<^verbatim>\<open>await util.promisify(this.server.close).bind(this.server)\<close>.
\<close>

definition close :: "web \<Rightarrow> nat list \<Rightarrow> (error + unit) \<times> web \<times> nat list" where
  "close w ports =
     (case await (Uncalled server_close) (server w, ports) of
        (r, srv, ports') \<Rightarrow> (r, w\<lparr>server := srv\<rparr>, ports'))"

section \<open>Middleware that the properties below are about\<close>

text \<open>
  The middleware whose place in the pipeline matters below: the two gates, and the
  session store with the two middleware that read the session.
\<close>

fun watched :: "middleware \<Rightarrow> bool" where
  "watched RateLimitGate = True"
| "watched (SessionStore k c g s) = True"
| "watched (RedirectLoopMw r) = True"
| "watched Flash = True"
| "watched CsrfGate = True"
| "watched m = False"

fun session_related :: "middleware \<Rightarrow> bool" where
  "session_related (SessionStore k c g s) = True"
| "session_related (RedirectLoopMw r) = True"
| "session_related Flash = True"
| "session_related m = False"


section \<open>An example\<close>

text \<open>
  A process with an empty environment whose shared configuration sets a port, a
  matcher that knows literal patterns only, and a caller who asks for rate limiting
  and HTTPS, and supplies a hook and routes.
\<close>

definition literal_match :: "string \<Rightarrow> jsval list \<Rightarrow> string list" where
  "literal_match path globs = (if Str path \<in> set globs then [path] else [])"

definition example_host :: host where
  "example_host = \<lparr>
     env = (\<lambda>k. None),
     sharedConfig = [(''port'', Num 3000), (''protocol'', Str ''http'')],
     path_resolve = (\<lambda>p. ''/srv'' @ drop 1 p),
     multimatch = literal_match,
     boolean = (\<lambda>v. v = Bool True),
     run_hook = (\<lambda>f. Inr [f]),
     call_function = (\<lambda>f. Inr (Fun f))\<rparr>"

definition example_config :: obj where
  "example_config = [
     (''rateLimit'', Obj [(''max'', Num 100)]),
     (''hookBeforeSetup'', Fun (Caller 1)),
     (''protocol'', Str ''https''),
     (''ssl'', Obj [(''key'', Str ''k''), (''cert'', Str ''c'')]),
     (''routes'', Fun (Caller 2))]"


text \<open>
  The same process with a host name of a space and a no-break space, and a caller
  who supplies
  \<^verbatim>\<open>views\<close> with a \<^verbatim>\<open>root\<close> only.
\<close>

definition blank_host :: host where
  "blank_host = example_host\<lparr>env := (\<lambda>k. if k = ''WEB_HOST'' then Some [CHR 0x20, CHR 0xA0] else None)\<rparr>"

definition views_only :: obj where
  "views_only = [(''views'', Obj [(''root'', Str ''/tmp/views'')])]"


section \<open>The structure of the pipeline\<close>

lemma obj_get_spread:
  "obj_get (spread a b) k = (case map_of b k of Some v \<Rightarrow> v | None \<Rightarrow> obj_get a k)"
  by (simp add: obj_get_def spread_def AList.merge_conv' map_add_def split: option.splits)

lemma Web_Inr:
  assumes "Web h c = Inr w"
  obtains before_setup i18n method_override passport before_routes routes app_cache where
    "call_hook h (obj_get (this_config h c) ''hookBeforeSetup'') = Inr before_setup"
    "i18n_stage (this_config h c) = Inr i18n"
    "method_override_stage (this_config h c) = Inr method_override"
    "passport_stage h (this_config h c) = Inr passport"
    "call_hook h (obj_get (this_config h c) ''hookBeforeRoutes'') = Inr before_routes"
    "routes_stage h (this_config h c) = Inr routes"
    "views_locals_cache h (this_config h c) = Inr app_cache"
    "config w = this_config h c"
    "middleware (app w) =
       instrumentation (config w) @ before_setup @ gatekeeping (config w) @ i18n
       @ rendering (config w) @ sessions (config w) @ method_override @ csrf_stage h (config w)
       @ passport @ fallbacks (config w) @ before_routes @ routes"
    "server w = create_server (config w) (middleware (app w))"
  using assms
  unfolding Web_def Let_def and_then_def
  by (auto split: sum.splits)

lemma filter_attach_if: "filter P (attach_if c ms) = attach_if c (filter P ms)"
  by (simp add: attach_if_def)

lemma attach_if_Nil: "attach_if c [] = []"
  by (simp add: attach_if_def)

lemma app_use_unwatched: "app_use v = Inr ms \<Longrightarrow> filter watched ms = []"
  by (cases v) auto

lemma use_result_of_unwatched: "use_result_of run v k = Inr ms \<Longrightarrow> filter watched ms = []"
  by (auto simp: use_result_of_def and_then_def split: jsval.splits sum.splits dest: app_use_unwatched)

lemma call_hook_unwatched: "call_hook h v = Inr ms \<Longrightarrow> filter watched ms = []"
  by (auto simp: call_hook_def and_then_def split: jsval.splits sum.splits)

lemma i18n_stage_unwatched: "i18n_stage cfg = Inr ms \<Longrightarrow> filter watched ms = []"
  by (auto simp: i18n_stage_def Let_def and_then_def split: if_splits sum.splits dest: app_use_unwatched)

lemma method_override_stage_unwatched: "method_override_stage cfg = Inr ms \<Longrightarrow> filter watched ms = []"
  by (auto simp: method_override_stage_def Let_def split: if_splits jsval.splits)

lemma passport_stage_unwatched: "passport_stage h cfg = Inr ms \<Longrightarrow> filter watched ms = []"
  by (auto simp: passport_stage_def Let_def and_then_def split: if_splits sum.splits dest: use_result_of_unwatched)

lemma routes_stage_unwatched: "routes_stage h cfg = Inr ms \<Longrightarrow> filter watched ms = []"
  by (auto simp: routes_stage_def Let_def split: if_splits dest: use_result_of_unwatched app_use_unwatched)

lemma instrumentation_unwatched: "filter watched (instrumentation cfg) = []"
  by (simp add: instrumentation_def filter_attach_if attach_if_Nil)

lemma rendering_unwatched: "filter watched (rendering cfg) = []"
  by (simp add: rendering_def filter_attach_if attach_if_Nil)

lemma fallbacks_unwatched: "filter watched (fallbacks cfg) = []"
  by (simp add: fallbacks_def filter_attach_if attach_if_Nil)

lemma gatekeeping_watched:
  "filter watched (gatekeeping cfg) = attach_if (truthy (obj_get cfg ''rateLimit'')) [RateLimitGate]"
  by (simp add: gatekeeping_def filter_attach_if attach_if_Nil)

lemma sessions_watched:
  "filter watched (sessions cfg) =
     SessionStore (obj_get cfg ''cookiesKey'') (obj_get cfg ''cookies'')
                  (obj_get cfg ''genSid'') (obj_get cfg ''session'')
     # attach_if (truthy (obj_get cfg ''redirectLoop'')) [RedirectLoopMw (obj_get cfg ''redirectLoop'')]
     @ [Flash]"
  by (simp add: sessions_def filter_attach_if attach_if_Nil)

lemma csrf_stage_watched:
  "filter watched (csrf_stage h cfg) = csrf_stage h cfg"
  by (simp add: csrf_stage_def filter_attach_if attach_if_Nil)

lemma pipeline_watched:
  assumes "Web h c = Inr w"
  shows "filter watched (middleware (app w)) =
     attach_if (truthy (obj_get (config w) ''rateLimit'')) [RateLimitGate]
     @ SessionStore (obj_get (config w) ''cookiesKey'') (obj_get (config w) ''cookies'')
                  (obj_get (config w) ''genSid'') (obj_get (config w) ''session'')
     # attach_if (truthy (obj_get (config w) ''redirectLoop''))
         [RedirectLoopMw (obj_get (config w) ''redirectLoop'')]
     @ [Flash]
     @ csrf_stage h (config w)"
proof -
  from assms obtain before_setup i18n method_override passport before_routes routes where
    stages: "call_hook h (obj_get (this_config h c) ''hookBeforeSetup'') = Inr before_setup"
      "i18n_stage (this_config h c) = Inr i18n"
      "method_override_stage (this_config h c) = Inr method_override"
      "passport_stage h (this_config h c) = Inr passport"
      "call_hook h (obj_get (this_config h c) ''hookBeforeRoutes'') = Inr before_routes"
      "routes_stage h (this_config h c) = Inr routes"
    and pipeline: "middleware (app w) =
       instrumentation (config w) @ before_setup @ gatekeeping (config w) @ i18n
       @ rendering (config w) @ sessions (config w) @ method_override @ csrf_stage h (config w)
       @ passport @ fallbacks (config w) @ before_routes @ routes"
    by (rule Web_Inr)
  show ?thesis
    unfolding pipeline
    by (simp only: filter_append call_hook_unwatched [OF stages(1)] i18n_stage_unwatched [OF stages(2)]
        method_override_stage_unwatched [OF stages(3)] passport_stage_unwatched [OF stages(4)]
        call_hook_unwatched [OF stages(5)] routes_stage_unwatched [OF stages(6)]
        instrumentation_unwatched rendering_unwatched fallbacks_unwatched gatekeeping_watched
        sessions_watched csrf_stage_watched append_Nil append_Nil2 append_Cons append_assoc)
qed

lemma filter_through_watched:
  "(\<And>m. P m \<Longrightarrow> watched m) \<Longrightarrow> filter P ms = filter P (filter watched ms)"
  by (induction ms) auto

lemma obj_get_this_config:
  "obj_get (this_config h c) k =
     (case map_of c k of Some v \<Rightarrow> v
      | None \<Rightarrow> (case map_of (defaults h) k of Some v \<Rightarrow> v | None \<Rightarrow> obj_get (sharedConfig h) k))"
  by (simp add: this_config_def obj_get_spread split: option.splits)

lemma example_constructed: "\<exists>w. Web example_host example_config = Inr w"
proof -
  have "case Web example_host example_config of Inl e \<Rightarrow> False | Inr w \<Rightarrow> True" by code_simp
  then show ?thesis
    by (cases "Web example_host example_config") auto
qed

lemma example_cfg:
  "obj_get (this_config example_host example_config) ''cookiesKey'' = Str ''lad.sid''"
  "obj_get (this_config example_host example_config) ''cookies'' = Undefined"
  "obj_get (this_config example_host example_config) ''genSid'' = Fun DefaultGenSid"
  "obj_get (this_config example_host example_config) ''session'' = Undefined"
  "obj_get (this_config example_host example_config) ''redirectLoop'' = Obj []"
  "obj_get (this_config example_host example_config) ''rateLimit'' = Obj [(''max'', Num 100)]"
  "obj_get (this_config example_host example_config) ''csrf'' = Obj []"
  "obj_get (this_config example_host example_config) ''protocol'' = Str ''https''"
  "obj_get (this_config example_host example_config) ''ssl'' = Obj [(''key'', Str ''k''), (''cert'', Str ''c'')]"
  "obj_get (this_config example_host example_config) ''csrfIgnoredGlobs'' = Arr [Str ''/report'']"
  "obj_get (this_config example_host example_config) ''rateLimitIgnoredGlobs'' = Arr [Str ''/report'']"
  by code_simp+

lemma example_host_simps:
  "multimatch example_host = literal_match"
  "env example_host k = None"
  by (simp_all add: example_host_def)

lemma member_filter:
  "filter (\<lambda>x. x = m) ms = attach_if c [m] \<Longrightarrow> m \<in> set ms \<longleftrightarrow> c"
proof -
  assume "filter (\<lambda>x. x = m) ms = attach_if c [m]"
  then have "set (filter (\<lambda>x. x = m) ms) = set (attach_if c [m])" by simp
  then show ?thesis by (auto simp: attach_if_def split: if_splits)
qed


lemma example_port: "obj_get (this_config example_host example_config) ''port'' = Num 3000"
  by code_simp


section \<open>The claims\<close>

text \<open>
  C2. Whenever the constructor returns, the pipeline it has assembled splits around
  the session store: no middleware that depends on the session is attached before
  it, and those attached after it are, in this order, the redirect-loop middleware
  (exactly when \<^verbatim>\<open>config.redirectLoop\<close> is truthy) and the flash-messages
  middleware. So the session store is attached strictly before both.
\<close>

theorem session_store_precedes_dependents:
  assumes "Web h caller_config = Inr w"
  shows "\<exists>pre post.
     middleware (app w) =
       pre @ SessionStore (obj_get (config w) ''cookiesKey'') (obj_get (config w) ''cookies'')
              (obj_get (config w) ''genSid'') (obj_get (config w) ''session'') # post
     \<and> filter session_related pre = []
     \<and> filter session_related post =
         attach_if (truthy (obj_get (config w) ''redirectLoop''))
           [RedirectLoopMw (obj_get (config w) ''redirectLoop'')] @ [Flash]"
proof -
  let ?s = "SessionStore (obj_get (config w) ''cookiesKey'') (obj_get (config w) ''cookies'')
              (obj_get (config w) ''genSid'') (obj_get (config w) ''session'')"
  let ?rest = "attach_if (truthy (obj_get (config w) ''redirectLoop''))
           [RedirectLoopMw (obj_get (config w) ''redirectLoop'')] @ [Flash]"
  have "filter session_related (middleware (app w))
      = filter session_related (filter watched (middleware (app w)))"
  proof (rule filter_through_watched)
    fix m show "session_related m \<Longrightarrow> watched m" by (cases m) simp_all
  qed
  also have "\<dots> = ?s # ?rest"
    by (simp add: pipeline_watched [OF assms] filter_attach_if attach_if_Nil csrf_stage_def)
  finally have "filter session_related (middleware (app w)) = ?s # ?rest" .
  then obtain pre post where "middleware (app w) = pre @ ?s # post"
    "\<forall>m\<in>set pre. \<not> session_related m" "filter session_related post = ?rest"
    by (auto simp: filter_eq_Cons_iff)
  moreover from this(2) have "filter session_related pre = []"
    by (simp add: filter_empty_conv)
  ultimately show ?thesis by blast
qed

theorem session_store_precedes_dependents_witness:
  "\<exists>w pre post. Web example_host example_config = Inr w
     \<and> middleware (app w) =
         pre @ SessionStore (Str ''lad.sid'') Undefined (Fun DefaultGenSid) Undefined # post
     \<and> filter session_related pre = []
     \<and> filter session_related post = [RedirectLoopMw (Obj []), Flash]"
proof -
  obtain w where w: "Web example_host example_config = Inr w"
    using example_constructed by blast
  have cfg: "config w = this_config example_host example_config"
    using w by (rule Web_Inr)
  have "\<exists>pre post. middleware (app w) =
         pre @ SessionStore (Str ''lad.sid'') Undefined (Fun DefaultGenSid) Undefined # post
     \<and> filter session_related pre = []
     \<and> filter session_related post = [RedirectLoopMw (Obj []), Flash]"
    using session_store_precedes_dependents [OF w]
    by (simp add: cfg example_cfg attach_if_def)
  with w show ?thesis by blast
qed

text \<open>
  C3. Whenever the constructor returns, the CSRF middleware is in the pipeline
  exactly when \<^verbatim>\<open>config.csrf\<close> is truthy and \<^verbatim>\<open>NODE_ENV\<close> is not
  \<^verbatim>\<open>test\<close>; and when \<^verbatim>\<open>config.csrfIgnoredGlobs\<close> is a non-empty array and the
  matcher reports a match of the request's path against it, the middleware calls
  \<^verbatim>\<open>next\<close> without validating.
\<close>

theorem csrf_attached_and_skipped:
  assumes "Web h caller_config = Inr w"
  shows "(CsrfGate \<in> set (middleware (app w)) \<longleftrightarrow>
            truthy (obj_get (config w) ''csrf'') \<and> env h ''NODE_ENV'' \<noteq> Some ''test'')
       \<and> (\<forall>path globs.
            obj_get (config w) ''csrfIgnoredGlobs'' = Arr globs \<and> globs \<noteq> []
            \<and> multimatch h path globs \<noteq> []
            \<longrightarrow> csrf_gate h (config w) path = CallNext)"
proof -
  have "filter (\<lambda>x. x = CsrfGate) (middleware (app w))
      = filter (\<lambda>x. x = CsrfGate) (filter watched (middleware (app w)))"
    by (rule filter_through_watched) simp
  also have "\<dots> = csrf_stage h (config w)"
    by (simp add: pipeline_watched [OF assms] filter_attach_if attach_if_Nil csrf_stage_def)
  finally have "CsrfGate \<in> set (middleware (app w)) \<longleftrightarrow>
      truthy (obj_get (config w) ''csrf'') \<and> env h ''NODE_ENV'' \<noteq> Some ''test''"
    unfolding csrf_stage_def by (rule member_filter)
  moreover have "\<forall>path globs.
            obj_get (config w) ''csrfIgnoredGlobs'' = Arr globs \<and> globs \<noteq> []
            \<and> multimatch h path globs \<noteq> []
            \<longrightarrow> csrf_gate h (config w) path = CallNext"
    by (simp add: csrf_gate_def)
  ultimately show ?thesis by blast
qed

theorem csrf_attached_and_skipped_witness:
  "\<exists>w. Web example_host example_config = Inr w
     \<and> CsrfGate \<in> set (middleware (app w))
     \<and> csrf_gate example_host (config w) ''/report'' = CallNext"
proof -
  obtain w where w: "Web example_host example_config = Inr w"
    using example_constructed by blast
  have cfg: "config w = this_config example_host example_config"
    using w by (rule Web_Inr)
  have globs: "obj_get (config w) ''csrfIgnoredGlobs'' = Arr [Str ''/report'']
      \<and> [Str ''/report''] \<noteq> [] \<and> multimatch example_host ''/report'' [Str ''/report''] \<noteq> []"
    by (simp add: cfg example_cfg example_host_simps literal_match_def)
  have "CsrfGate \<in> set (middleware (app w))
     \<and> csrf_gate example_host (config w) ''/report'' = CallNext"
    using csrf_attached_and_skipped [OF w] globs
    by (simp add: cfg example_cfg example_host_simps)
  with w show ?thesis by blast
qed

text \<open>
  C4. Whenever the constructor returns, the rate-limit middleware is in the
  pipeline exactly when \<^verbatim>\<open>config.rateLimit\<close> is truthy; and when
  \<^verbatim>\<open>config.rateLimitIgnoredGlobs\<close> is a non-empty array, the middleware calls
  \<^verbatim>\<open>next\<close> for a path that the matcher reports as matching, whatever
  \<^verbatim>\<open>config.rateLimit\<close> holds, and runs the rate limiter for every other path.
\<close>

theorem rate_limit_skipped_on_ignored_paths:
  assumes "Web h caller_config = Inr w"
  shows "(RateLimitGate \<in> set (middleware (app w)) \<longleftrightarrow> truthy (obj_get (config w) ''rateLimit''))
       \<and> (\<forall>path globs.
            obj_get (config w) ''rateLimitIgnoredGlobs'' = Arr globs \<and> globs \<noteq> []
            \<longrightarrow> rate_limit_gate h (config w) path =
                  (if multimatch h path globs \<noteq> [] then CallNext
                   else RunRatelimit (obj_get (config w) ''rateLimit'')))"
proof -
  have "filter (\<lambda>x. x = RateLimitGate) (middleware (app w))
      = filter (\<lambda>x. x = RateLimitGate) (filter watched (middleware (app w)))"
    by (rule filter_through_watched) simp
  also have "\<dots> = attach_if (truthy (obj_get (config w) ''rateLimit'')) [RateLimitGate]"
    by (simp add: pipeline_watched [OF assms] filter_attach_if attach_if_Nil csrf_stage_def)
  finally have "RateLimitGate \<in> set (middleware (app w)) \<longleftrightarrow> truthy (obj_get (config w) ''rateLimit'')"
    by (rule member_filter)
  moreover have "\<forall>path globs.
            obj_get (config w) ''rateLimitIgnoredGlobs'' = Arr globs \<and> globs \<noteq> []
            \<longrightarrow> rate_limit_gate h (config w) path =
                  (if multimatch h path globs \<noteq> [] then CallNext
                   else RunRatelimit (obj_get (config w) ''rateLimit''))"
    by (simp add: rate_limit_gate_def)
  ultimately show ?thesis by blast
qed

theorem rate_limit_skipped_on_ignored_paths_witness:
  "\<exists>w. Web example_host example_config = Inr w
     \<and> RateLimitGate \<in> set (middleware (app w))
     \<and> rate_limit_gate example_host (config w) ''/report'' = CallNext
     \<and> rate_limit_gate example_host (config w) ''/login'' = RunRatelimit (Obj [(''max'', Num 100)])"
proof -
  obtain w where w: "Web example_host example_config = Inr w"
    using example_constructed by blast
  have cfg: "config w = this_config example_host example_config"
    using w by (rule Web_Inr)
  have globs: "obj_get (config w) ''rateLimitIgnoredGlobs'' = Arr [Str ''/report'']
      \<and> [Str ''/report''] \<noteq> []"
    by (simp add: cfg example_cfg)
  have "RateLimitGate \<in> set (middleware (app w))
     \<and> rate_limit_gate example_host (config w) ''/report'' = CallNext
     \<and> rate_limit_gate example_host (config w) ''/login'' = RunRatelimit (Obj [(''max'', Num 100)])"
    using rate_limit_skipped_on_ignored_paths [OF w] globs
    by (simp add: cfg example_cfg example_host_simps literal_match_def)
  with w show ?thesis by blast
qed

text \<open>
  C7. Whenever the constructor returns, its server is a secure HTTP/2 server built
  from \<^verbatim>\<open>config.ssl\<close> if \<^verbatim>\<open>config.protocol\<close> is the string \<^verbatim>\<open>https\<close>,
  and a plain HTTP server for every other value, undefined included; either way its
  handler is the pipeline of the application.
\<close>

theorem transport_selection:
  assumes "Web h caller_config = Inr w"
  shows "server w =
     (if obj_get (config w) ''protocol'' = Str ''https''
      then \<lparr>transport = Http2Secure (obj_get (config w) ''ssl''),
            handler = middleware (app w), listening = None\<rparr>
      else \<lparr>transport = Http, handler = middleware (app w), listening = None\<rparr>)"
proof -
  have "server w = create_server (config w) (middleware (app w))"
    using assms by (rule Web_Inr)
  then show ?thesis by (simp add: create_server_def)
qed

theorem transport_selection_witness:
  "\<exists>w. Web example_host example_config = Inr w
     \<and> transport (server w) = Http2Secure (Obj [(''key'', Str ''k''), (''cert'', Str ''c'')])
     \<and> handler (server w) = middleware (app w)"
proof -
  obtain w where w: "Web example_host example_config = Inr w"
    using example_constructed by blast
  have cfg: "config w = this_config example_host example_config"
    using w by (rule Web_Inr)
  have "transport (server w) = Http2Secure (Obj [(''key'', Str ''k''), (''cert'', Str ''c'')])
     \<and> handler (server w) = middleware (app w)"
    using transport_selection [OF w]
    by (simp add: cfg example_cfg)
  with w show ?thesis by blast
qed

text \<open>
  C1. The claim is that \<^verbatim>\<open>close()\<close> releases the port, so that a new instance can
  listen on it. It does not: in the example, \<^verbatim>\<open>listen()\<close> binds port 3000,
  \<^verbatim>\<open>close()\<close> then completes without an error and leaves the server listening and
  the port bound, and a new instance that listens on port 3000 gets
  \<^verbatim>\<open>EADDRINUSE\<close>. \<^verbatim>\<open>close()\<close> awaits the promisified method without calling
  it; called, as \<^verbatim>\<open>listen()\<close> calls its own, it would have released the port.
\<close>

theorem close_leaves_port_bound:
  "\<exists>w. Web example_host example_config = Inr w \<and>
     (case listen w Undefined Undefined [] of (r1, w1, ports1) \<Rightarrow>
        r1 = Inr () \<and> ports1 = [3000] \<and>
        (case close w1 ports1 of (r2, w2, ports2) \<Rightarrow>
           r2 = Inr () \<and> ports2 = [3000] \<and> listening (server w2) = Some 3000 \<and>
           fst (listen w Undefined Undefined ports2) = Inl EADDRINUSE \<and>
           await (Call server_close) (server w1, ports1)
             = (Inr (), (server w1)\<lparr>listening := None\<rparr>, [])))"
proof -
  obtain w where w: "Web example_host example_config = Inr w"
    using example_constructed by blast
  have cfg: "config w = this_config example_host example_config"
    using w by (rule Web_Inr)
  have "server w = create_server (config w) (middleware (app w))"
    using w by (rule Web_Inr)
  then have idle: "listening (server w) = None"
    by (simp add: create_server_def)
  have still_bound: "case listen w Undefined Undefined [] of (r1, w1, ports1) \<Rightarrow>
        r1 = Inr () \<and> ports1 = [3000] \<and>
        (case close w1 ports1 of (r2, w2, ports2) \<Rightarrow>
           r2 = Inr () \<and> ports2 = [3000] \<and> listening (server w2) = Some 3000 \<and>
           fst (listen w Undefined Undefined ports2) = Inl EADDRINUSE \<and>
           await (Call server_close) (server w1, ports1)
             = (Inr (), (server w1)\<lparr>listening := None\<rparr>, []))"
    by (simp add: listen_def close_def server_listen_def server_close_def cfg example_port idle)
  show ?thesis
    by (rule exI [of _ w], rule conjI, rule w, rule still_bound)
qed

text \<open>
  C5. When \<^verbatim>\<open>WEB_HOST\<close> is absent from the environment, or is blank (empty,
  or white space only, the no-break space and the next-line character included), \<^verbatim>\<open>defaultSrc\<close> is null and so is \<^verbatim>\<open>contentSecurityPolicy\<close> in
  the default \<^verbatim>\<open>helmet\<close> object, which is the \<^verbatim>\<open>helmet\<close> of the merged
  configuration when the caller supplies none.
\<close>

theorem no_host_no_content_security_policy:
  assumes "env h ''WEB_HOST'' = None
         \<or> (\<exists>s. env h ''WEB_HOST'' = Some s \<and> list_all whitespace s)"
  shows "defaultSrc h = Null
       \<and> member (default_helmet h) ''contentSecurityPolicy'' = Null
       \<and> (map_of caller_config ''helmet'' = None \<longrightarrow>
            member (obj_get (this_config h caller_config) ''helmet'') ''contentSecurityPolicy'' = Null)"
proof -
  from assms have "\<not> isSANB (env h ''WEB_HOST'')"
    by (auto simp: isSANB_def list_ex_iff list_all_iff)
  then have src: "defaultSrc h = Null"
    by (simp add: defaultSrc_def)
  then have csp: "member (default_helmet h) ''contentSecurityPolicy'' = Null"
    by (simp add: default_helmet_def contentSecurityPolicy_def obj_get_def)
  have "map_of (defaults h) ''helmet'' = Some (default_helmet h)"
    by (simp add: defaults_def)
  then have "map_of caller_config ''helmet'' = None \<Longrightarrow>
      obj_get (this_config h caller_config) ''helmet'' = default_helmet h"
    by (simp add: obj_get_this_config)
  with src csp show ?thesis by simp
qed

theorem no_host_no_content_security_policy_witness:
  "member (default_helmet example_host) ''contentSecurityPolicy'' = Null
   \<and> member (default_helmet blank_host) ''contentSecurityPolicy'' = Null
   \<and> member (obj_get (this_config blank_host example_config) ''helmet'') ''contentSecurityPolicy'' = Null"
proof -
  have absent: "env example_host ''WEB_HOST'' = None
      \<or> (\<exists>s. env example_host ''WEB_HOST'' = Some s \<and> list_all whitespace s)"
    by (simp add: example_host_simps)
  have blank: "env blank_host ''WEB_HOST'' = None
      \<or> (\<exists>s. env blank_host ''WEB_HOST'' = Some s \<and> list_all whitespace s)"
    by (simp add: blank_host_def whitespace_def)
  have unset: "map_of example_config ''helmet'' = None"
    by (simp add: example_config_def)
  show ?thesis
    using no_host_no_content_security_policy [OF absent, of example_config]
      no_host_no_content_security_policy [OF blank, of example_config] unset
    by simp
qed

text \<open>
  C8. The handler of the error event logs the error at level \<^verbatim>\<open>warn\<close> when it
  carries a status below 500, and at level \<^verbatim>\<open>error\<close> otherwise; it logs with the
  logger of the context when there is one, and with the process-wide logger
  otherwise. An error carries a status when its \<^verbatim>\<open>status\<close> is a number other
  than zero: the handler tests it for truthiness, and no HTTP status is zero.
\<close>

theorem error_event_logging:
  "at_level (on_error status_of err ctx_logger) =
     (if \<exists>s. status_of err = Some s \<and> s \<noteq> 0 \<and> s < 500 then Warn else Error)
   \<and> target (on_error status_of err ctx_logger) =
       (case ctx_logger of Some l \<Rightarrow> CtxLogger l | None \<Rightarrow> Cabin)
   \<and> logged (on_error status_of err ctx_logger) = err"
  by (cases "status_of err"; cases ctx_logger) (simp_all add: on_error_def error_level_def Let_def)

text \<open>
  C9. The constructor merges at the top level only. Under every name, the merged
  configuration reads the caller's value when the caller's configuration has that
  name, and otherwise the default, and the shared configuration where there is no
  default. The caller's value replaces the default whole: when it is a record, each
  of its fields reads as in the caller's record alone, so that a field which only
  the default record has is undefined in the merged configuration. (In the example
  that follows, a caller's \<^verbatim>\<open>views\<close> with a \<^verbatim>\<open>root\<close> only leaves the merged
  \<^verbatim>\<open>views\<close> without the \<^verbatim>\<open>locals\<close> and \<^verbatim>\<open>options\<close> that it has when the
  caller supplies nothing, while the defaults under the other names stay.)
\<close>

theorem config_merge_is_shallow:
  "(\<forall>v. map_of caller_config k = Some v \<longrightarrow>
        obj_get (this_config h caller_config) k = v)
   \<and> (\<forall>fields f. map_of caller_config k = Some (Obj fields) \<longrightarrow>
        member (obj_get (this_config h caller_config) k) f = obj_get fields f)
   \<and> (map_of caller_config k = None \<longrightarrow>
        obj_get (this_config h caller_config) k =
          (case map_of (defaults h) k of
             Some d \<Rightarrow> d
           | None \<Rightarrow> obj_get (sharedConfig h) k))"
  by (simp add: obj_get_this_config)

theorem config_merge_is_shallow_witness:
  "obj_get (this_config example_host views_only) ''views'' = Obj [(''root'', Str ''/tmp/views'')]
   \<and> member (obj_get (this_config example_host views_only) ''views'') ''root'' = Str ''/tmp/views''
   \<and> member (obj_get (this_config example_host views_only) ''views'') ''locals'' = Undefined
   \<and> member (obj_get (this_config example_host views_only) ''views'') ''options'' = Undefined
   \<and> obj_get (this_config example_host views_only) ''csrfIgnoredGlobs'' = Arr [Str ''/report'']
   \<and> obj_get (this_config example_host views_only) ''port'' = Num 3000
   \<and> member (obj_get (this_config example_host []) ''views'') ''locals'' = Obj []
   \<and> member (obj_get (this_config example_host []) ''views'') ''options''
       = Obj [(''extension'', Str ''pug'')]"
proof -
  have supplied: "map_of views_only ''views'' = Some (Obj [(''root'', Str ''/tmp/views'')])"
    by (simp add: views_only_def)
  have globs: "map_of views_only ''csrfIgnoredGlobs'' = None"
    by (simp add: views_only_def)
  have port: "map_of views_only ''port'' = None"
    by (simp add: views_only_def)
  have nothing: "map_of ([] :: obj) ''views'' = None"
    by simp
  have default_globs: "map_of (defaults example_host) ''csrfIgnoredGlobs'' = Some (Arr [Str ''/report''])"
    by (simp add: defaults_def)
  have default_port: "map_of (defaults example_host) ''port'' = None"
    by (simp add: defaults_def)
  have shared_port: "obj_get (sharedConfig example_host) ''port'' = Num 3000"
    by (simp add: example_host_def obj_get_def)
  have default_views: "map_of (defaults example_host) ''views'' =
      Some (Obj [(''root'', Str (path_resolve example_host ''./app/views'')),
                 (''locals'', Obj []),
                 (''options'', Obj [(''extension'', Str ''pug'')])])"
    by (simp add: defaults_def)
  have views: "obj_get (this_config example_host views_only) ''views''
      = Obj [(''root'', Str ''/tmp/views'')]"
    using config_merge_is_shallow [of views_only "''views''" example_host] supplied
    by simp
  have kept: "obj_get (this_config example_host views_only) ''csrfIgnoredGlobs''
      = Arr [Str ''/report'']"
    using config_merge_is_shallow [of views_only "''csrfIgnoredGlobs''" example_host]
    by (simp add: globs default_globs)
  have shared: "obj_get (this_config example_host views_only) ''port'' = Num 3000"
    using config_merge_is_shallow [of views_only "''port''" example_host]
    by (simp add: port default_port shared_port)
  have untouched: "obj_get (this_config example_host []) ''views'' =
      Obj [(''root'', Str (path_resolve example_host ''./app/views'')),
           (''locals'', Obj []),
           (''options'', Obj [(''extension'', Str ''pug'')])]"
    using config_merge_is_shallow [of "[]" "''views''" example_host]
    by (simp add: default_views)
  show ?thesis
    unfolding views kept shared untouched
    by (simp add: obj_get_def)
qed

text \<open>
  C10. When the caller supplies neither \<^verbatim>\<open>csrfIgnoredGlobs\<close> nor
  \<^verbatim>\<open>rateLimitIgnoredGlobs\<close>, both are \<^verbatim>\<open>['/report']\<close> in the merged
  configuration, whatever the shared configuration holds; and, the matcher
  reporting that the path \<^verbatim>\<open>/report\<close> matches the pattern \<^verbatim>\<open>/report\<close>, both
  gates call \<^verbatim>\<open>next\<close> for a request to \<^verbatim>\<open>/report\<close>.
\<close>

theorem report_path_bypasses_by_default:
  assumes "map_of caller_config ''csrfIgnoredGlobs'' = None"
      and "map_of caller_config ''rateLimitIgnoredGlobs'' = None"
  shows "obj_get (this_config h caller_config) ''csrfIgnoredGlobs'' = Arr [Str ''/report'']
       \<and> obj_get (this_config h caller_config) ''rateLimitIgnoredGlobs'' = Arr [Str ''/report'']
       \<and> (multimatch h ''/report'' [Str ''/report''] \<noteq> [] \<longrightarrow>
            csrf_gate h (this_config h caller_config) ''/report'' = CallNext
          \<and> rate_limit_gate h (this_config h caller_config) ''/report'' = CallNext)"
proof -
  have c: "obj_get (this_config h caller_config) ''csrfIgnoredGlobs'' = Arr [Str ''/report'']"
    using assms(1) by (simp add: obj_get_this_config defaults_def)
  have r: "obj_get (this_config h caller_config) ''rateLimitIgnoredGlobs'' = Arr [Str ''/report'']"
    using assms(2) by (simp add: obj_get_this_config defaults_def)
  show ?thesis
    by (simp add: c r csrf_gate_def rate_limit_gate_def)
qed

theorem report_path_bypasses_by_default_witness:
  "obj_get (this_config example_host example_config) ''csrfIgnoredGlobs'' = Arr [Str ''/report'']
   \<and> obj_get (this_config example_host example_config) ''rateLimitIgnoredGlobs'' = Arr [Str ''/report'']
   \<and> csrf_gate example_host (this_config example_host example_config) ''/report'' = CallNext
   \<and> rate_limit_gate example_host (this_config example_host example_config) ''/report'' = CallNext"
proof -
  have c: "map_of example_config ''csrfIgnoredGlobs'' = None"
    by (simp add: example_config_def)
  have r: "map_of example_config ''rateLimitIgnoredGlobs'' = None"
    by (simp add: example_config_def)
  have m: "multimatch example_host ''/report'' [Str ''/report''] \<noteq> []"
    by (simp add: example_host_simps literal_match_def)
  show ?thesis
    using report_path_bypasses_by_default [OF c r, of example_host] m
    by simp
qed

end
